theory Spec2Isabelle
  imports Complex_Main
begin

section \<open>The backend as seen through axios\<close>

text \<open>
  The two pages (\<^verbatim>\<open>pages/Dashboard.js\<close>, \<^verbatim>\<open>pages/CallDetails.js\<close>) talk to a REST
  backend that is not part of the repository. A request is what the page hands to
  \<^verbatim>\<open>axios.get\<close> / \<^verbatim>\<open>axios.post\<close>: method, URL, body and config.
\<close>

datatype http_method = GET | POST

datatype js_file = File (file_name: string)

datatype request_body = NoBody | FormData "(string \<times> js_file) list"

datatype request_config = NoConfig | Headers "(string \<times> string) list" | ResponseType string

datatype request =
  Request (req_method: http_method) (req_url: string) (req_body: request_body)
    (req_config: request_config)

text \<open>
  A call as the backend lists it. \<open>analysis_status\<close> and \<open>overall_score\<close> may be missing
  (\<open>None\<close> stands for \<^verbatim>\<open>undefined\<close>/\<^verbatim>\<open>null\<close>); a score that is present is a number,
  modelled as an integer.
\<close>

record call =
  id' :: string
  filename :: string
  upload_timestamp :: string
  analysis_status :: "string option"
  overall_score :: "int option"

record upload_data =
  call_id :: string

text \<open>
  A rejected promise carries an error; the only part the pages read is
  \<^verbatim>\<open>error.response?.data?.detail\<close>, which is \<open>None\<close> when any link of that chain is
  missing.
\<close>

datatype http_error = HttpError (detail: "string option")

text \<open>
  The backend answers a request by resolving with data or rejecting with an error. It is a
  parameter of every handler, read at the type at which the caller uses
  \<^verbatim>\<open>response.data\<close>. Within one run of a handler all requests are different, so a
  function of the request covers every combination of outcomes.
\<close>

record backend =
  upload_route :: "request \<Rightarrow> http_error + upload_data"
  action_route :: "request \<Rightarrow> http_error + unit"
  calls_route :: "request \<Rightarrow> http_error + call list"
  call_route :: "request \<Rightarrow> http_error + call"
  export_route :: "request \<Rightarrow> http_error + string"

section \<open>Effects\<close>

text \<open>
  Everything a handler does besides computing is appended to a trace, in program order:
  a request being issued, its promise settling (the point where \<^verbatim>\<open>await\<close> resumes),
  React state setters, toasts, console output, timers, navigation and DOM calls.
\<close>

datatype blob = Blob "string list"

datatype event =
    Issued request
  | Resolved request
  | Rejected request
  | SetCalls "call list"
  | SetUploading bool
  | SetUploadProgress nat
  | SetCallData call
  | SetLoading bool
  | ToastSuccess string
  | ToastError string
  | ConsoleError string
  | SetTimeout nat
  | Navigate string
  | CreateObjectURL blob
  | AppendLink
  | LinkClick blob string
  | RemoveLink

record page =
  trace :: "event list"

definition emit :: "event \<Rightarrow> 'a page_scheme \<Rightarrow> 'a page_scheme" where
  "emit e st = st\<lparr>trace := trace st @ [e]\<rparr>"

definition await :: "(request \<Rightarrow> http_error + 'd) \<Rightarrow> request \<Rightarrow> 'a page_scheme
    \<Rightarrow> (http_error + 'd) \<times> 'a page_scheme" where
  "await route req st =
     (case route req of
        Inl error \<Rightarrow> (Inl error, emit (Rejected req) (emit (Issued req) st))
      | Inr data \<Rightarrow> (Inr data, emit (Resolved req) (emit (Issued req) st)))"

definition toast_success :: "string \<Rightarrow> 'a page_scheme \<Rightarrow> 'a page_scheme" where
  "toast_success msg = emit (ToastSuccess msg)"

definition toast_error :: "string \<Rightarrow> 'a page_scheme \<Rightarrow> 'a page_scheme" where
  "toast_error msg = emit (ToastError msg)"

definition console_error :: "string \<Rightarrow> 'a page_scheme \<Rightarrow> 'a page_scheme" where
  "console_error msg = emit (ConsoleError msg)"

definition API :: "string \<Rightarrow> string" where
  "API BACKEND_URL = BACKEND_URL @ ''/api''"

section \<open>Dashboard.js\<close>

datatype timer_callback = FinishUpload string

record dashboard = page +
  calls :: "call list"
  uploading :: bool
  uploadProgress :: nat
  timers :: "(nat \<times> timer_callback) list"

definition setCalls :: "call list \<Rightarrow> dashboard \<Rightarrow> dashboard" where
  "setCalls cs st = emit (SetCalls cs) (st\<lparr>calls := cs\<rparr>)"

definition setUploading :: "bool \<Rightarrow> dashboard \<Rightarrow> dashboard" where
  "setUploading b st = emit (SetUploading b) (st\<lparr>uploading := b\<rparr>)"

definition setUploadProgress :: "nat \<Rightarrow> dashboard \<Rightarrow> dashboard" where
  "setUploadProgress n st = emit (SetUploadProgress n) (st\<lparr>uploadProgress := n\<rparr>)"

definition setTimeout :: "timer_callback \<Rightarrow> nat \<Rightarrow> dashboard \<Rightarrow> dashboard" where
  "setTimeout cb ms st = emit (SetTimeout ms) (st\<lparr>timers := timers st @ [(ms, cb)]\<rparr>)"

definition navigate :: "string \<Rightarrow> 'a page_scheme \<Rightarrow> 'a page_scheme" where
  "navigate path = emit (Navigate path)"

definition calls_request :: "string \<Rightarrow> request" where
  "calls_request BACKEND_URL = Request GET (API BACKEND_URL @ ''/calls'') NoBody NoConfig"

definition fetchCalls :: "string \<Rightarrow> backend \<Rightarrow> dashboard \<Rightarrow> dashboard" where
  "fetchCalls BACKEND_URL srv st =
     (case await (calls_route srv) (calls_request BACKEND_URL) st of
        (Inr data, st1) \<Rightarrow> setCalls data st1
      | (Inl error, st1) \<Rightarrow>
          toast_error ''Failed to load calls'' (console_error ''Error fetching calls:'' st1))"

definition upload_request :: "string \<Rightarrow> js_file \<Rightarrow> request" where
  "upload_request BACKEND_URL file =
     Request POST (API BACKEND_URL @ ''/upload-call'') (FormData [(''file'', file)])
       (Headers [(''Content-Type'', ''multipart/form-data'')])"

definition transcribe_request :: "string \<Rightarrow> string \<Rightarrow> request" where
  "transcribe_request BACKEND_URL callId =
     Request POST (API BACKEND_URL @ ''/transcribe/'' @ callId) NoBody NoConfig"

definition analyze_request :: "string \<Rightarrow> string \<Rightarrow> request" where
  "analyze_request BACKEND_URL callId =
     Request POST (API BACKEND_URL @ ''/analyze/'' @ callId) NoBody NoConfig"

text \<open>The \<^verbatim>\<open>catch\<close> block of \<^verbatim>\<open>handleFileUpload\<close>; \<^verbatim>\<open>a || b\<close> on strings takes \<open>b\<close>
  when \<open>a\<close> is missing or empty.\<close>

definition upload_catch :: "http_error \<Rightarrow> dashboard \<Rightarrow> dashboard" where
  "upload_catch error st =
     (let st = console_error ''Upload error:'' st;
          st = toast_error
                 (case detail error of
                    None \<Rightarrow> ''Upload failed''
                  | Some d \<Rightarrow> if d = [] then ''Upload failed'' else d) st;
          st = setUploading False st
      in setUploadProgress 0 st)"

text \<open>
  \<^verbatim>\<open>handleFileUpload\<close>. The argument is \<^verbatim>\<open>event.target.files[0]\<close>. The block handed to
  \<^verbatim>\<open>setTimeout\<close> is stored with its captured \<open>callId\<close> and run by \<open>run_timers\<close>.
\<close>

definition handleFileUpload :: "string \<Rightarrow> backend \<Rightarrow> js_file option \<Rightarrow> dashboard \<Rightarrow> dashboard" where
  "handleFileUpload BACKEND_URL srv file_opt st0 =
     (case file_opt of
        None \<Rightarrow> st0
      | Some file \<Rightarrow>
          (let st = setUploading True st0;
               st = setUploadProgress 10 st;
               st = setUploadProgress 30 st
           in case await (upload_route srv) (upload_request BACKEND_URL file) st of
                (Inl error, st) \<Rightarrow> upload_catch error st
              | (Inr data, st) \<Rightarrow>
                  (let callId = call_id data;
                       st = setUploadProgress 50 st;
                       st = toast_success ''File uploaded! Starting transcription...'' st
                   in case await (action_route srv) (transcribe_request BACKEND_URL callId) st of
                        (Inl error, st) \<Rightarrow> upload_catch error st
                      | (Inr _, st) \<Rightarrow>
                          (let st = setUploadProgress 75 st;
                               st = toast_success ''Transcription complete! Analyzing call...'' st
                           in case await (action_route srv) (analyze_request BACKEND_URL callId) st of
                                (Inl error, st) \<Rightarrow> upload_catch error st
                              | (Inr _, st) \<Rightarrow>
                                  (let st = setUploadProgress 100 st;
                                       st = toast_success ''Analysis complete!'' st;
                                       st = fetchCalls BACKEND_URL srv st
                                   in setTimeout (FinishUpload callId) 1000 st)))))"

fun run_callback :: "timer_callback \<Rightarrow> dashboard \<Rightarrow> dashboard" where
  "run_callback (FinishUpload callId) st =
     navigate (''/call/'' @ callId) (setUploadProgress 0 (setUploading False st))"

definition run_timers :: "dashboard \<Rightarrow> dashboard" where
  "run_timers st = foldl (\<lambda>s (ms, cb). run_callback cb s) (st\<lparr>timers := []\<rparr>) (timers st)"

text \<open>An upload run: the handler, then the timer it may have set.\<close>

definition upload_run :: "string \<Rightarrow> backend \<Rightarrow> js_file option \<Rightarrow> dashboard \<Rightarrow> dashboard" where
  "upload_run BACKEND_URL srv file_opt st = run_timers (handleFileUpload BACKEND_URL srv file_opt st)"

text \<open>
  A dashboard that is not uploading, showing the calls \<open>cs\<close>: the state in which the file
  input is enabled. Its trace starts empty, so the trace after a handler has run holds the
  events of that run.
\<close>

definition idle :: "call list \<Rightarrow> dashboard" where
  "idle cs = \<lparr>trace = [], calls = cs, uploading = False, uploadProgress = 0, timers = []\<rparr>"

section \<open>CallDetails.js\<close>

record call_details = page +
  callData :: "call option"
  loading :: bool

definition setCallData :: "call \<Rightarrow> call_details \<Rightarrow> call_details" where
  "setCallData c st = emit (SetCallData c) (st\<lparr>callData := Some c\<rparr>)"

definition setLoading :: "bool \<Rightarrow> call_details \<Rightarrow> call_details" where
  "setLoading b st = emit (SetLoading b) (st\<lparr>loading := b\<rparr>)"

definition call_request :: "string \<Rightarrow> string \<Rightarrow> request" where
  "call_request BACKEND_URL callId =
     Request GET (API BACKEND_URL @ ''/calls/'' @ callId) NoBody NoConfig"

definition fetchCallDetails :: "string \<Rightarrow> backend \<Rightarrow> string \<Rightarrow> call_details \<Rightarrow> call_details" where
  "fetchCallDetails BACKEND_URL srv callId st =
     (case await (call_route srv) (call_request BACKEND_URL callId) st of
        (Inr data, st1) \<Rightarrow> setLoading False (setCallData data st1)
      | (Inl error, st1) \<Rightarrow>
          setLoading False
            (toast_error ''Failed to load call details''
              (console_error ''Error fetching call details:'' st1)))"

definition export_request :: "string \<Rightarrow> string \<Rightarrow> string \<Rightarrow> request" where
  "export_request BACKEND_URL callId format =
     Request GET (API BACKEND_URL @ ''/export/'' @ callId @ ''/'' @ format) NoBody
       (ResponseType ''blob'')"

text \<open>\<^verbatim>\<open>String.prototype.toUpperCase\<close> on the ASCII letters (the page passes
  \<^verbatim>\<open>"csv"\<close> and \<^verbatim>\<open>"pdf"\<close>); other bytes are kept.\<close>

definition toUpperCase :: "string \<Rightarrow> string" where
  "toUpperCase s =
     map (\<lambda>c. case map_of (zip ''abcdefghijklmnopqrstuvwxyz'' ''ABCDEFGHIJKLMNOPQRSTUVWXYZ'') c of
                Some u \<Rightarrow> u
              | None \<Rightarrow> c) s"

definition export_catch :: "call_details \<Rightarrow> call_details" where
  "export_catch st = toast_error ''Failed to export report'' (console_error ''Export error:'' st)"

text \<open>
  \<^verbatim>\<open>handleExport\<close>. The object URL made for a blob is identified with the blob;
  \<open>LinkClick href download\<close> is the click on the temporary link, which starts the
  download. Reading \<^verbatim>\<open>callData.filename\<close> while \<open>callData\<close> is \<^verbatim>\<open>null\<close> throws inside the
  \<^verbatim>\<open>try\<close> and lands in the \<^verbatim>\<open>catch\<close> block.
\<close>

definition handleExport :: "string \<Rightarrow> backend \<Rightarrow> string \<Rightarrow> string \<Rightarrow> call_details \<Rightarrow> call_details" where
  "handleExport BACKEND_URL srv callId format st0 =
     (case await (export_route srv) (export_request BACKEND_URL callId format) st0 of
        (Inl error, st) \<Rightarrow> export_catch st
      | (Inr data, st) \<Rightarrow>
          (let url = Blob [data];
               st = emit (CreateObjectURL url) st
           in case callData st of
                None \<Rightarrow> export_catch st
              | Some cd \<Rightarrow>
                  (let st = emit AppendLink st;
                       st = emit (LinkClick url (filename cd @ ''_report.'' @ format)) st;
                       st = emit RemoveLink st
                   in toast_success (''Report exported as '' @ toUpperCase format) st)))"

text \<open>The page while it loads, and the page showing the call \<open>cd\<close>: the export buttons are
  rendered only past the two early returns (\<open>loading\<close>, \<open>!callData\<close>).\<close>

definition loading_page :: call_details where
  "loading_page = \<lparr>trace = [], callData = None, loading = True\<rparr>"

definition showing :: "call \<Rightarrow> call_details" where
  "showing cd = \<lparr>trace = [], callData = Some cd, loading = False\<rparr>"

section \<open>What the dashboard renders\<close>

subsection \<open>The status badge\<close>

record status_config =
  variant :: string
  label :: string
  className :: "string option"

definition statusConfig :: "(string \<times> status_config) list" where
  "statusConfig =
     [(''completed'', \<lparr>variant = ''default'', label = ''Completed'',
          className = Some ''bg-emerald-500 hover:bg-emerald-600''\<rparr>),
      (''processing'', \<lparr>variant = ''secondary'', label = ''Processing'',
          className = Some ''bg-amber-500 hover:bg-amber-600''\<rparr>),
      (''pending'', \<lparr>variant = ''outline'', label = ''Pending'',
          className = Some ''border-slate-400 text-slate-600''\<rparr>),
      (''failed'', \<lparr>variant = ''destructive'', label = ''Failed'', className = None\<rparr>)]"

text \<open>
  \<^verbatim>\<open>statusConfig\<close> is an object literal, so \<^verbatim>\<open>statusConfig[status]\<close> finds its own four
  properties and, failing that, the properties every object inherits from
  \<^verbatim>\<open>Object.prototype\<close>. Those are functions (or, for \<^verbatim>\<open>__proto__\<close>, the prototype
  object): truthy values without \<^verbatim>\<open>label\<close> or \<^verbatim>\<open>className\<close>.
\<close>

definition Object_prototype :: "string list" where
  "Object_prototype =
     [''constructor'', ''__defineGetter__'', ''__defineSetter__'', ''hasOwnProperty'',
      ''__lookupGetter__'', ''__lookupSetter__'', ''isPrototypeOf'', ''propertyIsEnumerable'',
      ''toString'', ''valueOf'', ''__proto__'', ''toLocaleString'']"

datatype property = Own status_config | Inherited | Undefined

definition get_property :: "(string \<times> status_config) list \<Rightarrow> string \<Rightarrow> property" where
  "get_property obj key =
     (case map_of obj key of
        Some c \<Rightarrow> Own c
      | None \<Rightarrow> if key \<in> set Object_prototype then Inherited else Undefined)"

text \<open>The rendered \<^verbatim>\<open><Badge>\<close>: its \<^verbatim>\<open>className\<close>, its \<^verbatim>\<open>data-testid\<close> and its text.\<close>

datatype element = Badge (badge_className: "string option") (badge_testid: string)
  (badge_text: "string option")

text \<open>A missing status is \<^verbatim>\<open>undefined\<close>, which as a property key and in a template literal
  reads \<^verbatim>\<open>"undefined"\<close>.\<close>

definition getStatusBadge :: "string option \<Rightarrow> element" where
  "getStatusBadge status =
     (let key = (case status of None \<Rightarrow> ''undefined'' | Some s \<Rightarrow> s);
          pending = (case map_of statusConfig ''pending'' of
                       Some c \<Rightarrow> (className c, Some (label c))
                     | None \<Rightarrow> (None, None));
          config = (case get_property statusConfig key of
                      Own c \<Rightarrow> (className c, Some (label c))
                    | Inherited \<Rightarrow> (None, None)
                    | Undefined \<Rightarrow> pending)
      in Badge (fst config) (''status-badge-'' @ key) (snd config))"

subsection \<open>The score column\<close>

fun show_nat :: "nat \<Rightarrow> string" where
  "show_nat n =
     (if n < 10 then [''0123456789'' ! n] else show_nat (n div 10) @ [''0123456789'' ! (n mod 10)])"

declare show_nat.simps [simp del]

definition show_int :: "int \<Rightarrow> string" where
  "show_int i = (if i < 0 then CHR ''-'' # show_nat (nat (- i)) else show_nat (nat i))"

text \<open>A score is truthy when it is present and not \<open>0\<close>.\<close>

definition truthy :: "int option \<Rightarrow> bool" where
  "truthy v = (case v of None \<Rightarrow> False | Some n \<Rightarrow> n \<noteq> 0)"

definition score_cell :: "call \<Rightarrow> string" where
  "score_cell c =
     (if truthy (overall_score c)
      then (case overall_score c of Some n \<Rightarrow> show_int n @ ''/100'' | None \<Rightarrow> ''/100'')
      else ''-'')"

subsection \<open>The statistics\<close>

text \<open>JavaScript numbers as far as the average needs them: finite values, \<^verbatim>\<open>NaN\<close> and the
  two infinities. Sums and quotients of finite values are exact; the rounding of
  floating-point arithmetic is not modelled.\<close>

datatype number = Finite real | NaN | PosInfinity | NegInfinity

fun js_add :: "number \<Rightarrow> number \<Rightarrow> number" where
  "js_add (Finite a) (Finite b) = Finite (a + b)"
| "js_add NaN y = NaN"
| "js_add x NaN = NaN"
| "js_add PosInfinity NegInfinity = NaN"
| "js_add NegInfinity PosInfinity = NaN"
| "js_add PosInfinity y = PosInfinity"
| "js_add NegInfinity y = NegInfinity"
| "js_add x PosInfinity = PosInfinity"
| "js_add x NegInfinity = NegInfinity"

text \<open>Division by a length: a zero divisor gives \<^verbatim>\<open>NaN\<close> for \<open>0/0\<close> and an infinity
  otherwise.\<close>

fun js_div :: "number \<Rightarrow> nat \<Rightarrow> number" where
  "js_div (Finite a) n =
     (if n \<noteq> 0 then Finite (a / of_nat n)
      else if a = 0 then NaN else if 0 < a then PosInfinity else NegInfinity)"
| "js_div x n = x"

fun Math_round :: "number \<Rightarrow> number" where
  "Math_round (Finite q) = Finite (of_int \<lfloor>q + 1 / 2\<rfloor>)"
| "Math_round x = x"

text \<open>\<^verbatim>\<open>x || 0\<close> on a number: \<open>0\<close> and \<^verbatim>\<open>NaN\<close> are falsy.\<close>

fun or_zero :: "number \<Rightarrow> number" where
  "or_zero (Finite q) = Finite q"
| "or_zero NaN = Finite 0"
| "or_zero x = x"

definition score_number :: "call \<Rightarrow> number" where
  "score_number c = (case overall_score c of None \<Rightarrow> NaN | Some n \<Rightarrow> Finite (of_int n))"

definition scored :: "call list \<Rightarrow> call list" where
  "scored cs = filter (\<lambda>c. truthy (overall_score c)) cs"

definition totalCalls :: "call list \<Rightarrow> nat" where
  "totalCalls cs = length cs"

definition avgScore :: "call list \<Rightarrow> number" where
  "avgScore cs =
     (if length cs > 0
      then Math_round
             (js_div (foldl (\<lambda>sum c. js_add sum (score_number c)) (Finite 0) (scored cs))
                     (length (scored cs)))
      else Finite 0)"

definition completedAnalysis :: "call list \<Rightarrow> nat" where
  "completedAnalysis cs = length (filter (\<lambda>c. analysis_status c = Some ''completed'') cs)"

text \<open>The number shown under "Average Score": \<^verbatim>\<open>{stats.avgScore || 0}\<close>.\<close>

definition displayed_average :: "call list \<Rightarrow> number" where
  "displayed_average cs = or_zero (avgScore cs)"


text \<open>
  The average as the specification words it: \<^verbatim>\<open>Math.round\<close> of the arithmetic mean of
  \<open>overall_score\<close> over the calls that have one, and \<open>0\<close> when no call has one.
\<close>

definition spec_average :: "call list \<Rightarrow> int" where
  "spec_average cs =
     (let scores = List.map_filter overall_score cs
      in if scores = [] then 0
         else \<lfloor>(of_int (sum_list scores) :: real) / of_nat (length scores) + 1 / 2\<rfloor>)"

section \<open>Reading a trace\<close>

fun requests :: "event list \<Rightarrow> request list" where
  "requests [] = []"
| "requests (Issued r # es) = r # requests es"
| "requests (e # es) = requests es"

fun resolved :: "event list \<Rightarrow> request list" where
  "resolved [] = []"
| "resolved (Resolved r # es) = r # resolved es"
| "resolved (e # es) = resolved es"

fun rejected :: "event list \<Rightarrow> request list" where
  "rejected [] = []"
| "rejected (Rejected r # es) = r # rejected es"
| "rejected (e # es) = rejected es"

fun navigations :: "event list \<Rightarrow> string list" where
  "navigations [] = []"
| "navigations (Navigate p # es) = p # navigations es"
| "navigations (e # es) = navigations es"

fun progress_values :: "event list \<Rightarrow> nat list" where
  "progress_values [] = []"
| "progress_values (SetUploadProgress n # es) = n # progress_values es"
| "progress_values (e # es) = progress_values es"

fun error_toasts :: "event list \<Rightarrow> string list" where
  "error_toasts [] = []"
| "error_toasts (ToastError m # es) = m # error_toasts es"
| "error_toasts (e # es) = error_toasts es"

definition is_post :: "request \<Rightarrow> bool" where
  "is_post r = (req_method r = POST)"

text \<open>The events after the first occurrence of \<open>e\<close>.\<close>

definition after :: "event \<Rightarrow> event list \<Rightarrow> event list" where
  "after e es = drop 1 (dropWhile (\<lambda>x. x \<noteq> e) es)"

text \<open>
  A trace in which every request is awaited: each \<open>Issued r\<close> is followed by the settling
  of \<open>r\<close> before any other request is issued.
\<close>

fun awaited :: "event list \<Rightarrow> bool" and settles :: "request \<Rightarrow> event list \<Rightarrow> bool" where
  "awaited [] = True"
| "awaited (Issued r # es) = settles r es"
| "awaited (Resolved r # es) = False"
| "awaited (Rejected r # es) = False"
| "awaited (e # es) = awaited es"
| "settles r [] = False"
| "settles r (Issued r' # es) = False"
| "settles r (Resolved r' # es) = (r' = r \<and> awaited es)"
| "settles r (Rejected r' # es) = (r' = r \<and> awaited es)"
| "settles r (e # es) = settles r es"

fun downloads :: "event list \<Rightarrow> (blob \<times> string) list" where
  "downloads [] = []"
| "downloads (LinkClick href name # es) = (href, name) # downloads es"
| "downloads (e # es) = downloads es"

text \<open>The events of an upload run started on an idle dashboard.\<close>

definition upload_events :: "string \<Rightarrow> backend \<Rightarrow> js_file \<Rightarrow> call list \<Rightarrow> event list" where
  "upload_events BACKEND_URL srv file cs =
     trace (upload_run BACKEND_URL srv (Some file) (idle cs))"

section \<open>Sample backends and calls\<close>

text \<open>A backend on which every request resolves, one on which every request rejects, and
  one that accepts the upload and rejects everything after it.\<close>

definition sample_call :: "int option \<Rightarrow> call" where
  "sample_call score =
     \<lparr>id' = ''c1'', filename = ''demo.mp3'', upload_timestamp = ''2024-01-01T00:00:00'',
      analysis_status = Some ''completed'', overall_score = score\<rparr>"

definition backend_up :: backend where
  "backend_up =
     \<lparr>upload_route = (\<lambda>r. Inr \<lparr>call_id = ''c1''\<rparr>),
      action_route = (\<lambda>r. Inr ()),
      calls_route = (\<lambda>r. Inr [sample_call (Some 80)]),
      call_route = (\<lambda>r. Inr (sample_call (Some 80))),
      export_route = (\<lambda>r. Inr ''report'')\<rparr>"

definition backend_down :: backend where
  "backend_down =
     \<lparr>upload_route = (\<lambda>r. Inl (HttpError None)),
      action_route = (\<lambda>r. Inl (HttpError None)),
      calls_route = (\<lambda>r. Inl (HttpError None)),
      call_route = (\<lambda>r. Inl (HttpError None)),
      export_route = (\<lambda>r. Inl (HttpError None))\<rparr>"

definition backend_upload_only :: backend where
  "backend_upload_only =
     backend_down\<lparr>upload_route := (\<lambda>r. Inr \<lparr>call_id = ''c1''\<rparr>)\<rparr>"

section \<open>Properties of the upload pipeline\<close>

lemmas effect_defs = emit_def await_def toast_success_def toast_error_def console_error_def
  setCalls_def setUploading_def setUploadProgress_def setTimeout_def navigate_def
  setCallData_def setLoading_def

lemmas upload_defs = upload_events_def upload_run_def handleFileUpload_def upload_catch_def
  run_timers_def idle_def fetchCalls_def Let_def

lemma is_post_requests [simp]:
  "is_post (upload_request B f)" "is_post (transcribe_request B c)"
  "is_post (analyze_request B c)" "\<not> is_post (calls_request B)"
  by (simp_all add: is_post_def upload_request_def transcribe_request_def analyze_request_def
      calls_request_def)

lemma pipeline_requests_differ [simp]:
  "upload_request B f \<noteq> transcribe_request B c"
  "upload_request B f \<noteq> analyze_request B c"
  "transcribe_request B c \<noteq> upload_request B f"
  "transcribe_request B c \<noteq> analyze_request B c'"
  "analyze_request B c \<noteq> upload_request B f"
  "analyze_request B c \<noteq> transcribe_request B c'"
  by (simp_all add: upload_request_def transcribe_request_def analyze_request_def)

lemma calls_request_differs [simp]:
  "upload_request B f \<noteq> calls_request B"
  "transcribe_request B c \<noteq> calls_request B"
  "analyze_request B c \<noteq> calls_request B"
  "calls_request B \<noteq> upload_request B f"
  "calls_request B \<noteq> transcribe_request B c"
  "calls_request B \<noteq> analyze_request B c"
  by (simp_all add: upload_request_def transcribe_request_def analyze_request_def
      calls_request_def)

text \<open>The run spelled out, one lemma for each way it can go.\<close>

lemma events_upload_rejected:
  assumes "upload_route srv (upload_request B f) = Inl e"
  shows "upload_events B srv f cs =
     [SetUploading True, SetUploadProgress 10, SetUploadProgress 30,
      Issued (upload_request B f), Rejected (upload_request B f),
      ConsoleError ''Upload error:'',
      ToastError (case detail e of None \<Rightarrow> ''Upload failed''
                  | Some d \<Rightarrow> if d = [] then ''Upload failed'' else d),
      SetUploading False, SetUploadProgress 0]"
  using assms by (simp add: upload_defs effect_defs)

lemma events_transcribe_rejected:
  assumes "upload_route srv (upload_request B f) = Inr d"
    and "action_route srv (transcribe_request B (call_id d)) = Inl e"
  shows "upload_events B srv f cs =
     [SetUploading True, SetUploadProgress 10, SetUploadProgress 30,
      Issued (upload_request B f), Resolved (upload_request B f),
      SetUploadProgress 50, ToastSuccess ''File uploaded! Starting transcription...'',
      Issued (transcribe_request B (call_id d)), Rejected (transcribe_request B (call_id d)),
      ConsoleError ''Upload error:'',
      ToastError (case detail e of None \<Rightarrow> ''Upload failed''
                  | Some d \<Rightarrow> if d = [] then ''Upload failed'' else d),
      SetUploading False, SetUploadProgress 0]"
  using assms by (simp add: upload_defs effect_defs)

lemma events_analyze_rejected:
  assumes "upload_route srv (upload_request B f) = Inr d"
    and "action_route srv (transcribe_request B (call_id d)) = Inr u"
    and "action_route srv (analyze_request B (call_id d)) = Inl e"
  shows "upload_events B srv f cs =
     [SetUploading True, SetUploadProgress 10, SetUploadProgress 30,
      Issued (upload_request B f), Resolved (upload_request B f),
      SetUploadProgress 50, ToastSuccess ''File uploaded! Starting transcription...'',
      Issued (transcribe_request B (call_id d)), Resolved (transcribe_request B (call_id d)),
      SetUploadProgress 75, ToastSuccess ''Transcription complete! Analyzing call...'',
      Issued (analyze_request B (call_id d)), Rejected (analyze_request B (call_id d)),
      ConsoleError ''Upload error:'',
      ToastError (case detail e of None \<Rightarrow> ''Upload failed''
                  | Some d \<Rightarrow> if d = [] then ''Upload failed'' else d),
      SetUploading False, SetUploadProgress 0]"
  using assms by (simp add: upload_defs effect_defs)

lemma events_all_resolved:
  assumes "upload_route srv (upload_request B f) = Inr d"
    and "action_route srv (transcribe_request B (call_id d)) = Inr u"
    and "action_route srv (analyze_request B (call_id d)) = Inr u'"
  shows "upload_events B srv f cs =
     [SetUploading True, SetUploadProgress 10, SetUploadProgress 30,
      Issued (upload_request B f), Resolved (upload_request B f),
      SetUploadProgress 50, ToastSuccess ''File uploaded! Starting transcription...'',
      Issued (transcribe_request B (call_id d)), Resolved (transcribe_request B (call_id d)),
      SetUploadProgress 75, ToastSuccess ''Transcription complete! Analyzing call...'',
      Issued (analyze_request B (call_id d)), Resolved (analyze_request B (call_id d)),
      SetUploadProgress 100, ToastSuccess ''Analysis complete!'',
      Issued (calls_request B)]
     @ (case calls_route srv (calls_request B) of
          Inl error \<Rightarrow> [Rejected (calls_request B), ConsoleError ''Error fetching calls:'',
                         ToastError ''Failed to load calls'']
        | Inr data \<Rightarrow> [Resolved (calls_request B), SetCalls data])
     @ [SetTimeout 1000, SetUploading False, SetUploadProgress 0,
        Navigate (''/call/'' @ call_id d)]"
  using assms by (simp add: upload_defs effect_defs split: sum.splits)

lemma run_final_state:
  "uploading (upload_run B srv (Some f) (idle cs)) = False
   \<and> uploadProgress (upload_run B srv (Some f) (idle cs)) = 0
   \<and> timers (upload_run B srv (Some f) (idle cs)) = []"
  by (simp add: upload_defs effect_defs split: sum.splits)

lemma upload_outcomes [case_names upload_rejected transcribe_rejected analyze_rejected
    all_resolved]:
  obtains e where "upload_route srv (upload_request B f) = Inl e"
  | d e where "upload_route srv (upload_request B f) = Inr d"
      and "action_route srv (transcribe_request B (call_id d)) = Inl e"
  | d u e where "upload_route srv (upload_request B f) = Inr d"
      and "action_route srv (transcribe_request B (call_id d)) = Inr u"
      and "action_route srv (analyze_request B (call_id d)) = Inl e"
  | d u u' where "upload_route srv (upload_request B f) = Inr d"
      and "action_route srv (transcribe_request B (call_id d)) = Inr u"
      and "action_route srv (analyze_request B (call_id d)) = Inr u'"
proof (cases "upload_route srv (upload_request B f)")
  case (Inl e)
  then show ?thesis using that(1) by blast
next
  case (Inr d)
  note up = this
  show ?thesis
  proof (cases "action_route srv (transcribe_request B (call_id d))")
    case (Inl e)
    with up show ?thesis using that(2) by blast
  next
    case (Inr u)
    note tr = this
    show ?thesis
    proof (cases "action_route srv (analyze_request B (call_id d))")
      case (Inl e)
      with up tr show ?thesis using that(3) by blast
    next
      case (Inr u')
      with up tr show ?thesis using that(4) by blast
    qed
  qed
qed

text \<open>The sample backends, and the runs on them.\<close>

lemma backend_up_routes [simp]:
  "upload_route backend_up r = Inr \<lparr>call_id = ''c1''\<rparr>"
  "action_route backend_up r = Inr ()"
  "calls_route backend_up r = Inr [sample_call (Some 80)]"
  "call_route backend_up r = Inr (sample_call (Some 80))"
  "export_route backend_up r = Inr ''report''"
  by (simp_all add: backend_up_def)

lemma backend_down_routes [simp]:
  "upload_route backend_down r = Inl (HttpError None)"
  "action_route backend_down r = Inl (HttpError None)"
  "calls_route backend_down r = Inl (HttpError None)"
  "call_route backend_down r = Inl (HttpError None)"
  "export_route backend_down r = Inl (HttpError None)"
  by (simp_all add: backend_down_def)

lemma backend_upload_only_routes [simp]:
  "upload_route backend_upload_only r = Inr \<lparr>call_id = ''c1''\<rparr>"
  "action_route backend_upload_only r = Inl (HttpError None)"
  by (simp_all add: backend_upload_only_def)

lemma events_backend_up:
  "upload_events B backend_up f cs =
     [SetUploading True, SetUploadProgress 10, SetUploadProgress 30,
      Issued (upload_request B f), Resolved (upload_request B f),
      SetUploadProgress 50, ToastSuccess ''File uploaded! Starting transcription...'',
      Issued (transcribe_request B ''c1''), Resolved (transcribe_request B ''c1''),
      SetUploadProgress 75, ToastSuccess ''Transcription complete! Analyzing call...'',
      Issued (analyze_request B ''c1''), Resolved (analyze_request B ''c1''),
      SetUploadProgress 100, ToastSuccess ''Analysis complete!'',
      Issued (calls_request B), Resolved (calls_request B), SetCalls [sample_call (Some 80)],
      SetTimeout 1000, SetUploading False, SetUploadProgress 0, Navigate ''/call/c1'']"
  using events_all_resolved [of backend_up B f "\<lparr>call_id = ''c1''\<rparr>" "()" "()" cs]
  by simp

lemma events_backend_down:
  "upload_events B backend_down f cs =
     [SetUploading True, SetUploadProgress 10, SetUploadProgress 30,
      Issued (upload_request B f), Rejected (upload_request B f),
      ConsoleError ''Upload error:'', ToastError ''Upload failed'',
      SetUploading False, SetUploadProgress 0]"
  using events_upload_rejected [of backend_down B f "HttpError None" cs]
  by simp

lemma events_backend_upload_only:
  "upload_events B backend_upload_only f cs =
     [SetUploading True, SetUploadProgress 10, SetUploadProgress 30,
      Issued (upload_request B f), Resolved (upload_request B f),
      SetUploadProgress 50, ToastSuccess ''File uploaded! Starting transcription...'',
      Issued (transcribe_request B ''c1''), Rejected (transcribe_request B ''c1''),
      ConsoleError ''Upload error:'', ToastError ''Upload failed'',
      SetUploading False, SetUploadProgress 0]"
  using events_transcribe_rejected [of backend_upload_only B f "\<lparr>call_id = ''c1''\<rparr>" "HttpError None" cs]
  by simp

text \<open>
  C1, as stated, fails: not every selected file leads to the three POSTs. The three awaits
  sit in one \<^verbatim>\<open>try\<close>, so on a backend that rejects the upload the run issues the upload
  POST and nothing else: neither \<open>transcribe\<close> nor \<open>analyze\<close> is called.
\<close>

theorem upload_rejected_single_post:
  "filter is_post (requests (upload_events ''http://h'' backend_down (File ''a.mp3'') [])) =
     [Request POST ''http://h/api/upload-call'' (FormData [(''file'', File ''a.mp3'')])
        (Headers [(''Content-Type'', ''multipart/form-data'')])]
   \<and> \<not> (\<exists>c. filter is_post (requests (upload_events ''http://h'' backend_down (File ''a.mp3'') [])) =
          [upload_request ''http://h'' (File ''a.mp3''), transcribe_request ''http://h'' c,
           analyze_request ''http://h'' c])"
  by (simp add: events_backend_down upload_request_def API_def is_post_def)

text \<open>
  C1, amended. For every selected file the handler first issues exactly one POST to
  \<open>{API}/upload-call\<close> carrying the file; if that request resolves, it then issues exactly
  one POST to \<open>{API}/transcribe/{call_id}\<close> with the \<open>call_id\<close> of the upload response; if
  that request resolves, it then issues exactly one POST to \<open>{API}/analyze/{call_id}\<close>.
  These are all the POSTs of the run, in this order, and every request of the run is
  settled before the next one is issued.
\<close>

theorem upload_pipeline_order:
  "awaited (upload_events B srv f cs)
   \<and> filter is_post (requests (upload_events B srv f cs)) =
       (case upload_route srv (upload_request B f) of
          Inl e \<Rightarrow> [upload_request B f]
        | Inr d \<Rightarrow>
            (case action_route srv (transcribe_request B (call_id d)) of
               Inl e \<Rightarrow> [upload_request B f, transcribe_request B (call_id d)]
             | Inr u \<Rightarrow> [upload_request B f, transcribe_request B (call_id d),
                          analyze_request B (call_id d)]))
   \<and> upload_request B f =
       Request POST (B @ ''/api/upload-call'') (FormData [(''file'', f)])
         (Headers [(''Content-Type'', ''multipart/form-data'')])
   \<and> transcribe_request B c = Request POST (B @ ''/api/transcribe/'' @ c) NoBody NoConfig
   \<and> analyze_request B c = Request POST (B @ ''/api/analyze/'' @ c) NoBody NoConfig"
proof -
  have "awaited (upload_events B srv f cs)
    \<and> filter is_post (requests (upload_events B srv f cs)) =
       (case upload_route srv (upload_request B f) of
          Inl e \<Rightarrow> [upload_request B f]
        | Inr d \<Rightarrow>
            (case action_route srv (transcribe_request B (call_id d)) of
               Inl e \<Rightarrow> [upload_request B f, transcribe_request B (call_id d)]
             | Inr u \<Rightarrow> [upload_request B f, transcribe_request B (call_id d),
                          analyze_request B (call_id d)]))"
  proof (cases rule: upload_outcomes [of srv B f])
    case (upload_rejected e)
    then show ?thesis by (simp add: events_upload_rejected)
  next
    case (transcribe_rejected d e)
    then show ?thesis by (simp add: events_transcribe_rejected)
  next
    case (analyze_rejected d u e)
    then show ?thesis by (simp add: events_analyze_rejected)
  next
    case (all_resolved d u u')
    then show ?thesis by (simp add: events_all_resolved split: sum.splits)
  qed
  moreover have "upload_request B f =
       Request POST (B @ ''/api/upload-call'') (FormData [(''file'', f)])
         (Headers [(''Content-Type'', ''multipart/form-data'')])"
    by (simp add: upload_request_def API_def)
  moreover have "transcribe_request B c = Request POST (B @ ''/api/transcribe/'' @ c) NoBody NoConfig"
    by (simp add: transcribe_request_def API_def)
  moreover have "analyze_request B c = Request POST (B @ ''/api/analyze/'' @ c) NoBody NoConfig"
    by (simp add: analyze_request_def API_def)
  ultimately show ?thesis by blast
qed

theorem upload_pipeline_order_witness:
  "filter is_post (requests (upload_events ''http://h'' backend_up (File ''a.mp3'') [])) =
     [Request POST ''http://h/api/upload-call'' (FormData [(''file'', File ''a.mp3'')])
        (Headers [(''Content-Type'', ''multipart/form-data'')]),
      Request POST ''http://h/api/transcribe/c1'' NoBody NoConfig,
      Request POST ''http://h/api/analyze/c1'' NoBody NoConfig]
   \<and> filter is_post (requests (upload_events ''http://h'' backend_upload_only (File ''a.mp3'') [])) =
     [Request POST ''http://h/api/upload-call'' (FormData [(''file'', File ''a.mp3'')])
        (Headers [(''Content-Type'', ''multipart/form-data'')]),
      Request POST ''http://h/api/transcribe/c1'' NoBody NoConfig]
   \<and> awaited (upload_events ''http://h'' backend_up (File ''a.mp3'') [])
   \<and> awaited (upload_events ''http://h'' backend_upload_only (File ''a.mp3'') [])"
  using upload_pipeline_order [of "''http://h''" backend_up "File ''a.mp3''" "[]" "''c1''"]
    upload_pipeline_order [of "''http://h''" backend_upload_only "File ''a.mp3''" "[]" "''c1''"]
  by simp

text \<open>
  C2. If one of the three pipeline requests (the POSTs) rejects, an error toast is shown, no
  request at all is issued after the rejection (so no later pipeline endpoint and no retry;
  no request of the run is issued twice), nothing is navigated to, and the run ends with
  \<open>uploading = False\<close>, \<open>uploadProgress = 0\<close> and no timer pending, the values of the idle
  dashboard it started from.
\<close>

theorem rejection_stops_run:
  assumes "r \<in> set (rejected (upload_events B srv f cs))" and "is_post r"
  shows "error_toasts (upload_events B srv f cs) \<noteq> []
    \<and> requests (after (Rejected r) (upload_events B srv f cs)) = []
    \<and> distinct (requests (upload_events B srv f cs))
    \<and> navigations (upload_events B srv f cs) = []
    \<and> uploading (upload_run B srv (Some f) (idle cs)) = False
    \<and> uploadProgress (upload_run B srv (Some f) (idle cs)) = 0
    \<and> timers (upload_run B srv (Some f) (idle cs)) = []"
proof -
  have "error_toasts (upload_events B srv f cs) \<noteq> []
    \<and> requests (after (Rejected r) (upload_events B srv f cs)) = []
    \<and> distinct (requests (upload_events B srv f cs))
    \<and> navigations (upload_events B srv f cs) = []"
  proof (cases rule: upload_outcomes [of srv B f])
    case (upload_rejected e)
    with assms show ?thesis by (simp add: events_upload_rejected after_def)
  next
    case (transcribe_rejected d e)
    with assms show ?thesis by (simp add: events_transcribe_rejected after_def)
  next
    case (analyze_rejected d u e)
    with assms show ?thesis by (simp add: events_analyze_rejected after_def)
  next
    case (all_resolved d u u')
    with assms show ?thesis by (auto simp add: events_all_resolved split: sum.splits)
  qed
  with run_final_state [of B srv f cs] show ?thesis by blast
qed

theorem rejection_stops_run_witness:
  "transcribe_request ''http://h'' ''c1''
      \<in> set (rejected (upload_events ''http://h'' backend_upload_only (File ''a.mp3'') []))
   \<and> is_post (transcribe_request ''http://h'' ''c1'')
   \<and> error_toasts (upload_events ''http://h'' backend_upload_only (File ''a.mp3'') []) = [''Upload failed'']
   \<and> requests (upload_events ''http://h'' backend_upload_only (File ''a.mp3'') []) =
       [upload_request ''http://h'' (File ''a.mp3''), transcribe_request ''http://h'' ''c1'']
   \<and> requests (after (Rejected (transcribe_request ''http://h'' ''c1''))
         (upload_events ''http://h'' backend_upload_only (File ''a.mp3'') [])) = []
   \<and> uploading (upload_run ''http://h'' backend_upload_only (Some (File ''a.mp3'')) (idle [])) = False
   \<and> uploadProgress (upload_run ''http://h'' backend_upload_only (Some (File ''a.mp3'')) (idle [])) = 0"
proof -
  note ev = events_backend_upload_only [of "''http://h''" "File ''a.mp3''" "[]"]
  have h1: "transcribe_request ''http://h'' ''c1''
      \<in> set (rejected (upload_events ''http://h'' backend_upload_only (File ''a.mp3'') []))"
    by (simp add: ev)
  have h2: "is_post (transcribe_request ''http://h'' ''c1'')" by simp
  from rejection_stops_run [OF h1 h2] h1 h2 show ?thesis by (simp add: ev)
qed

text \<open>
  C3. The run navigates if and only if all three POSTs resolved; after a rejected POST it
  never navigates. When it navigates, it does so once, to \<open>/call/{callId}\<close> with the
  \<open>call_id\<close> of the upload response, as the last event of the run (in the timer callback).
  Whether the refresh of the list (\<^verbatim>\<open>fetchCalls\<close>) succeeds plays no part.
\<close>

theorem navigation_iff_all_succeeded:
  "(navigations (upload_events B srv f cs) \<noteq> [])
      = (length (filter is_post (resolved (upload_events B srv f cs))) = 3)
   \<and> (filter is_post (rejected (upload_events B srv f cs)) \<noteq> []
        \<longrightarrow> navigations (upload_events B srv f cs) = [])
   \<and> (case upload_route srv (upload_request B f) of
         Inl e \<Rightarrow> navigations (upload_events B srv f cs) = []
       | Inr d \<Rightarrow>
           (if filter is_post (resolved (upload_events B srv f cs)) =
                 [upload_request B f, transcribe_request B (call_id d),
                  analyze_request B (call_id d)]
            then navigations (upload_events B srv f cs) = [''/call/'' @ call_id d]
               \<and> last (upload_events B srv f cs) = Navigate (''/call/'' @ call_id d)
            else navigations (upload_events B srv f cs) = []))"
proof (cases rule: upload_outcomes [of srv B f])
  case (upload_rejected e)
  then show ?thesis by (simp add: events_upload_rejected)
next
  case (transcribe_rejected d e)
  then show ?thesis by (simp add: events_transcribe_rejected)
next
  case (analyze_rejected d u e)
  then show ?thesis by (simp add: events_analyze_rejected)
next
  case (all_resolved d u u')
  then show ?thesis by (simp add: events_all_resolved split: sum.splits)
qed

theorem navigation_iff_all_succeeded_witness:
  "filter is_post (rejected (upload_events ''http://h'' backend_down (File ''a.mp3'') [])) \<noteq> []
   \<and> navigations (upload_events ''http://h'' backend_down (File ''a.mp3'') []) = []
   \<and> navigations (upload_events ''http://h'' backend_up (File ''a.mp3'') []) = [''/call/c1'']"
proof -
  have h: "filter is_post (rejected (upload_events ''http://h'' backend_down (File ''a.mp3'') [])) \<noteq> []"
    by (simp add: events_backend_down)
  have r3: "length (filter is_post (resolved (upload_events ''http://h'' backend_up (File ''a.mp3'') []))) = 3"
    by (simp add: events_backend_up)
  have rl: "filter is_post (resolved (upload_events ''http://h'' backend_up (File ''a.mp3'') [])) =
      [upload_request ''http://h'' (File ''a.mp3''), transcribe_request ''http://h'' ''c1'',
       analyze_request ''http://h'' ''c1'']"
    by (simp add: events_backend_up)
  from navigation_iff_all_succeeded [of "''http://h''" backend_down "File ''a.mp3''" "[]"]
    navigation_iff_all_succeeded [of "''http://h''" backend_up "File ''a.mp3''" "[]"]
    h r3 rl
  show ?thesis by simp
qed

text \<open>
  C4. The values \<open>uploadProgress\<close> is set to during a run are \<open>10, 30\<close>, then \<open>50\<close>, \<open>75\<close>,
  \<open>100\<close> after the first, second and third resolved POST, and finally \<open>0\<close>: all of them lie
  in \<open>{0, 10, 30, 50, 75, 100}\<close>, they increase strictly up to the final reset, and the
  run ends at \<open>0\<close> whether it succeeded or failed.
\<close>

theorem progress_values_of_run:
  "progress_values (upload_events B srv f cs) =
     take (2 + length (filter is_post (resolved (upload_events B srv f cs))))
       [10, 30, 50, 75, 100] @ [0]
   \<and> set (progress_values (upload_events B srv f cs)) \<subseteq> {0, 10, 30, 50, 75, 100}
   \<and> sorted_wrt (<) (butlast (progress_values (upload_events B srv f cs)))
   \<and> last (progress_values (upload_events B srv f cs)) = 0
   \<and> uploadProgress (upload_run B srv (Some f) (idle cs)) = 0"
proof -
  have "progress_values (upload_events B srv f cs) =
     take (2 + length (filter is_post (resolved (upload_events B srv f cs))))
       [10, 30, 50, 75, 100] @ [0]
   \<and> set (progress_values (upload_events B srv f cs)) \<subseteq> {0, 10, 30, 50, 75, 100}
   \<and> sorted_wrt (<) (butlast (progress_values (upload_events B srv f cs)))
   \<and> last (progress_values (upload_events B srv f cs)) = 0"
  proof (cases rule: upload_outcomes [of srv B f])
    case (upload_rejected e)
    then show ?thesis by (simp add: events_upload_rejected)
  next
    case (transcribe_rejected d e)
    then show ?thesis by (simp add: events_transcribe_rejected)
  next
    case (analyze_rejected d u e)
    then show ?thesis by (simp add: events_analyze_rejected)
  next
    case (all_resolved d u u')
    then show ?thesis by (simp add: events_all_resolved split: sum.splits)
  qed
  with run_final_state [of B srv f cs] show ?thesis by blast
qed

theorem progress_values_of_run_witness:
  "progress_values (upload_events ''http://h'' backend_up (File ''a.mp3'') []) = [10, 30, 50, 75, 100, 0]
   \<and> progress_values (upload_events ''http://h'' backend_upload_only (File ''a.mp3'') []) = [10, 30, 50, 0]"
proof -
  have r3: "length (filter is_post (resolved (upload_events ''http://h'' backend_up (File ''a.mp3'') []))) = 3"
    by (simp add: events_backend_up)
  have r1: "length (filter is_post (resolved (upload_events ''http://h'' backend_upload_only (File ''a.mp3'') []))) = 1"
    by (simp add: events_backend_upload_only)
  from progress_values_of_run [of "''http://h''" backend_up "File ''a.mp3''" "[]"]
    progress_values_of_run [of "''http://h''" backend_upload_only "File ''a.mp3''" "[]"] r3 r1
  show ?thesis by simp
qed

text \<open>
  C10. When the change event carries no file, \<^verbatim>\<open>handleFileUpload\<close> returns at once: the
  state (and with it the trace, so no request, and the \<open>uploading\<close> flag and
  \<open>uploadProgress\<close>) is exactly what it was; on an idle dashboard these are \<open>False\<close>
  and \<open>0\<close> and the trace stays empty.
\<close>

theorem no_file_no_effect:
  "handleFileUpload BACKEND_URL srv None st = st
   \<and> requests (trace (handleFileUpload BACKEND_URL srv None (idle cs))) = []
   \<and> uploading (handleFileUpload BACKEND_URL srv None (idle cs)) = False
   \<and> uploadProgress (handleFileUpload BACKEND_URL srv None (idle cs)) = 0"
  by (simp add: handleFileUpload_def idle_def)

section \<open>Properties of the requests and of the export\<close>

lemmas details_defs = fetchCallDetails_def handleExport_def export_catch_def loading_page_def
  showing_def Let_def

text \<open>
  C5. Each operation is one request to a fixed endpoint and nothing else goes to the backend:
  listing the calls is \<open>GET {API}/calls\<close>, fetching one call is \<open>GET {API}/calls/{id}\<close>,
  an export is \<open>GET {API}/export/{id}/{format}\<close>; in an upload run the upload is
  \<open>POST {API}/upload-call\<close>, the transcription \<open>POST {API}/transcribe/{id}\<close>, the analysis
  \<open>POST {API}/analyze/{id}\<close>, each issued once as far as the run gets, followed by the one
  \<open>GET {API}/calls\<close> that refreshes the list.
\<close>

theorem one_request_per_operation:
  "requests (trace (fetchCalls B srv (idle cs))) = [Request GET (B @ ''/api/calls'') NoBody NoConfig]
   \<and> requests (trace (fetchCallDetails B srv callId loading_page)) =
       [Request GET (B @ ''/api/calls/'' @ callId) NoBody NoConfig]
   \<and> requests (trace (handleExport B srv callId format (showing cd))) =
       [Request GET (B @ ''/api/export/'' @ callId @ ''/'' @ format) NoBody (ResponseType ''blob'')]
   \<and> requests (upload_events B srv f cs) =
       (case upload_route srv (upload_request B f) of
          Inl e \<Rightarrow> [upload_request B f]
        | Inr d \<Rightarrow>
            (case action_route srv (transcribe_request B (call_id d)) of
               Inl e \<Rightarrow> [upload_request B f, transcribe_request B (call_id d)]
             | Inr u \<Rightarrow>
                 (case action_route srv (analyze_request B (call_id d)) of
                    Inl e \<Rightarrow> [upload_request B f, transcribe_request B (call_id d),
                                analyze_request B (call_id d)]
                  | Inr u' \<Rightarrow> [upload_request B f, transcribe_request B (call_id d),
                                 analyze_request B (call_id d), calls_request B])))
   \<and> req_method (upload_request B f) = POST
   \<and> req_url (upload_request B f) = B @ ''/api/upload-call''
   \<and> transcribe_request B c = Request POST (B @ ''/api/transcribe/'' @ c) NoBody NoConfig
   \<and> analyze_request B c = Request POST (B @ ''/api/analyze/'' @ c) NoBody NoConfig
   \<and> calls_request B = Request GET (B @ ''/api/calls'') NoBody NoConfig"
proof -
  have 1: "requests (trace (fetchCalls B srv (idle cs))) = [Request GET (B @ ''/api/calls'') NoBody NoConfig]"
    by (simp add: fetchCalls_def idle_def calls_request_def API_def effect_defs split: sum.splits)
  have 2: "requests (trace (fetchCallDetails B srv callId loading_page)) =
       [Request GET (B @ ''/api/calls/'' @ callId) NoBody NoConfig]"
    by (simp add: details_defs call_request_def API_def effect_defs split: sum.splits)
  have 3: "requests (trace (handleExport B srv callId format (showing cd))) =
       [Request GET (B @ ''/api/export/'' @ callId @ ''/'' @ format) NoBody (ResponseType ''blob'')]"
    by (simp add: details_defs export_request_def API_def effect_defs split: sum.splits)
  have 4: "requests (upload_events B srv f cs) =
       (case upload_route srv (upload_request B f) of
          Inl e \<Rightarrow> [upload_request B f]
        | Inr d \<Rightarrow>
            (case action_route srv (transcribe_request B (call_id d)) of
               Inl e \<Rightarrow> [upload_request B f, transcribe_request B (call_id d)]
             | Inr u \<Rightarrow>
                 (case action_route srv (analyze_request B (call_id d)) of
                    Inl e \<Rightarrow> [upload_request B f, transcribe_request B (call_id d),
                                analyze_request B (call_id d)]
                  | Inr u' \<Rightarrow> [upload_request B f, transcribe_request B (call_id d),
                                 analyze_request B (call_id d), calls_request B])))"
  proof (cases rule: upload_outcomes [of srv B f])
    case (upload_rejected e)
    then show ?thesis by (simp add: events_upload_rejected)
  next
    case (transcribe_rejected d e)
    then show ?thesis by (simp add: events_transcribe_rejected)
  next
    case (analyze_rejected d u e)
    then show ?thesis by (simp add: events_analyze_rejected)
  next
    case (all_resolved d u u')
    then show ?thesis by (simp add: events_all_resolved split: sum.splits)
  qed
  have 5: "req_method (upload_request B f) = POST"
    "req_url (upload_request B f) = B @ ''/api/upload-call''"
    "transcribe_request B c = Request POST (B @ ''/api/transcribe/'' @ c) NoBody NoConfig"
    "analyze_request B c = Request POST (B @ ''/api/analyze/'' @ c) NoBody NoConfig"
    "calls_request B = Request GET (B @ ''/api/calls'') NoBody NoConfig"
    by (simp_all add: upload_request_def transcribe_request_def analyze_request_def
        calls_request_def API_def)
  from 1 2 3 4 5 show ?thesis by blast
qed

theorem one_request_per_operation_witness:
  "requests (trace (handleExport ''http://h'' backend_up ''c1'' ''csv'' (showing (sample_call None)))) =
     [Request GET ''http://h/api/export/c1/csv'' NoBody (ResponseType ''blob'')]
   \<and> requests (upload_events ''http://h'' backend_up (File ''a.mp3'') []) =
     [Request POST ''http://h/api/upload-call'' (FormData [(''file'', File ''a.mp3'')])
        (Headers [(''Content-Type'', ''multipart/form-data'')]),
      Request POST ''http://h/api/transcribe/c1'' NoBody NoConfig,
      Request POST ''http://h/api/analyze/c1'' NoBody NoConfig,
      Request GET ''http://h/api/calls'' NoBody NoConfig]"
  using one_request_per_operation [of "''http://h''" backend_up "[]" "''c1''" "''csv''" "sample_call None"
      "File ''a.mp3''" "''c1''"]
  by (simp add: upload_request_def API_def)

text \<open>
  C6. On the page showing a call, an export with format \<open>f\<close> whose request resolves starts
  exactly one download: the payload is a \<open>Blob\<close> of the response body and the suggested
  file name is \<open>{callData.filename}_report.{f}\<close>; no error toast is shown. If the request
  rejects, the error toast is shown and nothing is downloaded.
\<close>

theorem export_download:
  "downloads (trace (handleExport B srv callId format (showing cd))) =
     (case export_route srv (export_request B callId format) of
        Inr data \<Rightarrow> [(Blob [data], filename cd @ ''_report.'' @ format)]
      | Inl e \<Rightarrow> [])
   \<and> error_toasts (trace (handleExport B srv callId format (showing cd))) =
     (case export_route srv (export_request B callId format) of
        Inr data \<Rightarrow> []
      | Inl e \<Rightarrow> [''Failed to export report''])
   \<and> export_request B callId format =
       Request GET (B @ ''/api/export/'' @ callId @ ''/'' @ format) NoBody (ResponseType ''blob'')"
  by (simp add: details_defs export_request_def API_def effect_defs split: sum.splits)

theorem export_download_witness:
  "downloads (trace (handleExport ''http://h'' backend_up ''c1'' ''pdf'' (showing (sample_call (Some 80)))))
     = [(Blob [''report''], ''demo.mp3_report.pdf'')]
   \<and> downloads (trace (handleExport ''http://h'' backend_down ''c1'' ''pdf'' (showing (sample_call (Some 80))))) = []
   \<and> error_toasts (trace (handleExport ''http://h'' backend_down ''c1'' ''pdf'' (showing (sample_call (Some 80)))))
     = [''Failed to export report'']"
  using export_download [of "''http://h''" backend_up "''c1''" "''pdf''" "sample_call (Some 80)"]
    export_download [of "''http://h''" backend_down "''c1''" "''pdf''" "sample_call (Some 80)"]
  by (simp add: sample_call_def)

text \<open>The buttons do not exist while \<open>callData\<close> is \<^verbatim>\<open>null\<close>; were the handler run
  then, the \<^verbatim>\<open>catch\<close> block would take over before the click.\<close>

lemma export_without_call_data:
  "export_route srv (export_request B callId format) = Inr data \<Longrightarrow>
   downloads (trace (handleExport B srv callId format loading_page)) = []"
  by (simp add: details_defs effect_defs)

section \<open>Properties of the rendering\<close>

lemmas badge_defs = getStatusBadge_def get_property_def statusConfig_def Object_prototype_def

lemma status_badge_known:
  "getStatusBadge (Some ''pending'') =
     Badge (Some ''border-slate-400 text-slate-600'') ''status-badge-pending'' (Some ''Pending'')"
  "getStatusBadge (Some ''processing'') =
     Badge (Some ''bg-amber-500 hover:bg-amber-600'') ''status-badge-processing'' (Some ''Processing'')"
  "getStatusBadge (Some ''completed'') =
     Badge (Some ''bg-emerald-500 hover:bg-emerald-600'') ''status-badge-completed'' (Some ''Completed'')"
  "getStatusBadge (Some ''failed'') = Badge None ''status-badge-failed'' (Some ''Failed'')"
  "getStatusBadge None =
     Badge (Some ''border-slate-400 text-slate-600'') ''status-badge-undefined'' (Some ''Pending'')"
  by (simp_all add: badge_defs)

lemma status_badge_fallback:
  assumes "s \<notin> {''completed'', ''processing'', ''pending'', ''failed''}"
    and "s \<notin> set Object_prototype"
  shows "getStatusBadge (Some s) =
     Badge (Some ''border-slate-400 text-slate-600'') (''status-badge-'' @ s) (Some ''Pending'')"
  using assms by (simp add: getStatusBadge_def get_property_def statusConfig_def)

text \<open>
  C7. The four statuses \<open>pending\<close>, \<open>processing\<close>, \<open>completed\<close>, \<open>failed\<close> and a missing
  status render as stated (\<open>status_badge_known\<close>), and so does every other status that is
  not the name of a property inherited from \<^verbatim>\<open>Object.prototype\<close>
  (\<open>status_badge_fallback\<close>). For those names the lookup is truthy and the fallback to
  \<^verbatim>\<open>statusConfig.pending\<close> is not taken: the status \<open>constructor\<close> renders a badge
  without text and without class, not the Pending badge.
\<close>

theorem status_badge_inherited_key:
  "getStatusBadge (Some ''constructor'') = Badge None ''status-badge-constructor'' None
   \<and> badge_text (getStatusBadge (Some ''constructor'')) \<noteq> Some ''Pending''"
  by (simp add: badge_defs)

lemma score_cell_present:
  "overall_score c = Some n \<Longrightarrow> n \<noteq> 0 \<Longrightarrow> score_cell c = show_int n @ ''/100''"
  by (simp add: score_cell_def truthy_def)

lemma score_cell_missing: "overall_score c = None \<Longrightarrow> score_cell c = ''-''"
  by (simp add: score_cell_def truthy_def)

lemma score_cell_sample: "score_cell (sample_call (Some 85)) = ''85/100''"
  by (simp add: score_cell_def truthy_def sample_call_def show_int_def show_nat.simps)

text \<open>
  C8. A call whose \<open>overall_score\<close> is the number \<open>0\<close> (within 0 to 100) does not show
  \<open>0/100\<close> in the Score column: \<open>0\<close> is falsy, so the cell shows \<open>-\<close>, as for a call without
  a score. Non-zero scores show \<open>{overall_score}/100\<close> (\<open>score_cell_present\<close>).
\<close>

theorem score_cell_zero:
  "overall_score (sample_call (Some 0)) = Some 0 \<and> score_cell (sample_call (Some 0)) = ''-''"
  by (simp add: score_cell_def truthy_def sample_call_def)




text \<open>A score of \<open>0\<close> does not pass the filter either, so it is left out of the mean.\<close>

lemma average_skips_zero_scores:
  "displayed_average [sample_call (Some 0), sample_call (Some 100)] = Finite 100
   \<and> spec_average [sample_call (Some 0), sample_call (Some 100)] = 50"
  by (simp add: avgScore_def displayed_average_def scored_def truthy_def score_number_def
      sample_call_def spec_average_def)



end
